theory Spec2Isabelle
  imports Main "HOL-Library.Word" "HOL-Library.AList"
begin

section \<open>Paths: the parts of \<open>node:path\<close> (POSIX) that \<open>src/index.js\<close> calls\<close>

text \<open>
  Paths are JavaScript strings. \<open>process.cwd()\<close>, the module constant \<open>cwd\<close> of the
  source, is an explicit argument \<open>cwd\<close> of every function that reads it; it is an absolute
  path.
\<close>

definition isAbsolute :: "string \<Rightarrow> bool" where
  "isAbsolute p = (case p of [] \<Rightarrow> False | c # _ \<Rightarrow> c = CHR ''/'')"

text \<open>Splitting at \<open>/\<close>: the first argument is the segment read so far, reversed.\<close>

fun split_slash :: "string \<Rightarrow> string \<Rightarrow> string list" where
  "split_slash acc [] = [rev acc]"
| "split_slash acc (c # cs) =
     (if c = CHR ''/'' then rev acc # split_slash [] cs else split_slash (c # acc) cs)"

definition segments :: "string \<Rightarrow> string list" where
  "segments p = filter (\<lambda>s. s \<noteq> []) (split_slash [] p)"

text \<open>
  \<open>normalizeString\<close> of an absolute path: \<open>.\<close> is dropped, \<open>..\<close> removes the last
  segment kept so far and is dropped at the root. The first argument is the stack of
  segments kept so far, last one first.
\<close>

fun normalize_segs :: "string list \<Rightarrow> string list \<Rightarrow> string list" where
  "normalize_segs st [] = rev st"
| "normalize_segs st (s # ss) =
     (if s = ''.'' then normalize_segs st ss
      else if s = ''..'' then normalize_segs (case st of [] \<Rightarrow> [] | _ # r \<Rightarrow> r) ss
      else normalize_segs (s # st) ss)"

definition render :: "string list \<Rightarrow> string" where
  "render segs = (if segs = [] then ''/'' else concat (map (\<lambda>s. CHR ''/'' # s) segs))"

text \<open>
  \<open>path.resolve(...args)\<close>: the arguments are read from the last to the first, each one
  put in front of what is resolved so far, until an absolute one is met; empty arguments
  are skipped and \<open>cwd\<close> comes after the first argument. \<open>resolve_rev\<close> takes the
  arguments last one first.
\<close>

fun resolve_rev :: "string \<Rightarrow> string list \<Rightarrow> string" where
  "resolve_rev cwd [] = cwd"
| "resolve_rev cwd (p # ps) =
     (if p = [] then resolve_rev cwd ps
      else if isAbsolute p then p
      else resolve_rev cwd ps @ ''/'' @ p)"

definition path_resolve :: "string \<Rightarrow> string list \<Rightarrow> string" where
  "path_resolve cwd args = render (normalize_segs [] (segments (resolve_rev cwd (rev args))))"

text \<open>\<open>path.dirname\<close>, on the absolute normalized paths \<open>path.resolve\<close> returns.\<close>

definition dirname :: "string \<Rightarrow> string" where
  "dirname p = render (butlast (segments p))"

text \<open>
  \<open>s.replace(pat, rep)\<close> with a string pattern: the first occurrence of \<open>pat\<close>, wherever
  it stands in \<open>s\<close>, is replaced.
\<close>

fun replace_first :: "string \<Rightarrow> string \<Rightarrow> string \<Rightarrow> string" where
  "replace_first pat rep [] = (if pat = [] then rep else [])"
| "replace_first pat rep (c # cs) =
     (if take (length pat) (c # cs) = pat then rep @ drop (length pat) (c # cs)
      else c # replace_first pat rep cs)"

text \<open>
  Whether the absolute normalized path \<open>p\<close> is the directory \<open>t\<close> or lies below it:
  the segments of \<open>t\<close> are the first segments of \<open>p\<close>.
\<close>

definition inside :: "string \<Rightarrow> string \<Rightarrow> bool" where
  "inside t p = (take (length (segments t)) (segments p) = segments t)"

section \<open>The filesystem capability (\<open>node:fs\<close>)\<close>

type_synonym bytes = "8 word list"

datatype ftype = RegularFile | DirectoryT | Special

text \<open>The fields of \<open>fs.Stats\<close> that the archive functions read.\<close>

record stats =
  st_type :: ftype
  mode :: nat
  mtime :: int
  uid :: nat
  gid :: nat

definition isFile :: "stats \<Rightarrow> bool" where
  "isFile s = (st_type s = RegularFile)"

definition isDirectory :: "stats \<Rightarrow> bool" where
  "isDirectory s = (st_type s = DirectoryT)"

text \<open>
  The header object handed to \<open>pack.entry\<close> / \<open>archive.entry\<close> and read back as
  \<open>entry.header\<close>: \<open>{type, name, mode, mtime, uid, gid}\<close>.
\<close>

record header =
  h_type :: string
  h_name :: string
  h_mode :: nat
  h_mtime :: int
  h_uid :: nat
  h_gid :: nat

text \<open>
  What a file holds. The codecs (tar-stream, zip-stream, unzip-stream, zlib) are
  libraries outside the repository; they are taken to be lossless, so that an archive
  is the list of entries appended to it, in order. \<open>Tar es fin\<close> is a plain tar stream
  of the entries \<open>es\<close>, \<open>fin\<close> telling whether the stream was finalized (end-of-archive
  written and the stream ended); \<open>Zip es fin\<close> likewise; \<open>Gzip d\<close> is \<open>d\<close> wrapped in
  gzip framing; \<open>Raw bs\<close> is any other content, bytes that form none of these.
\<close>

datatype data =
    Raw bytes
  | Tar "(header \<times> data) list" bool
  | Zip "(header \<times> data) list" bool
  | Gzip data

type_synonym entry = "header \<times> data"

text \<open>
  The filesystem: absolute normalized paths with their stats and content, the first
  binding of a path counting. The root \<open>/\<close> is a directory without a binding.
\<close>

type_synonym filesystem = "(string \<times> stats \<times> data) list"

datatype err = ENOENT | ENOTDIR | EISDIR | EEXIST | InvalidTarHeader

definition root_stats :: stats where
  "root_stats = \<lparr>st_type = DirectoryT, mode = 493, mtime = 0, uid = 0, gid = 0\<rparr>"

definition lookup :: "filesystem \<Rightarrow> string \<Rightarrow> (stats \<times> data) option" where
  "lookup fs p = (if p = ''/'' then Some (root_stats, Raw []) else map_of fs p)"

text \<open>\<open>fs.stat(p)\<close>: rejects with ENOENT when nothing is at \<open>p\<close>.\<close>

definition stat :: "filesystem \<Rightarrow> string \<Rightarrow> err + stats" where
  "stat fs p = (case lookup fs p of None \<Rightarrow> Inl ENOENT | Some (s, _) \<Rightarrow> Inr s)"

text \<open>\<open>fs.readFile(p)\<close>.\<close>

definition readFile :: "filesystem \<Rightarrow> string \<Rightarrow> err + data" where
  "readFile fs p =
     (case lookup fs p of
        None \<Rightarrow> Inl ENOENT
      | Some (s, d) \<Rightarrow> if isDirectory s then Inl EISDIR else Inr d)"

text \<open>
  \<open>fs.readdir(f, {withFileTypes: true})\<close>, read through \<open>file.name\<close>: the names of
  the direct children of \<open>f\<close>.
\<close>

definition readdir :: "filesystem \<Rightarrow> string \<Rightarrow> string list" where
  "readdir fs f =
     map (\<lambda>q. last (segments q))
       (filter (\<lambda>q. segments q \<noteq> [] \<and> dirname q = f) (remdups (map fst fs)))"

text \<open>
  \<open>fs.readdir(f, {recursive: true})\<close>: the paths, relative to \<open>f\<close>, of everything
  below \<open>f\<close> at any depth.
\<close>

definition below :: "string \<Rightarrow> string \<Rightarrow> bool" where
  "below f q = (inside f q \<and> length (segments f) < length (segments q))"

definition readdir_recursive :: "filesystem \<Rightarrow> string \<Rightarrow> string list" where
  "readdir_recursive fs f =
     map (\<lambda>q. tl (render (drop (length (segments f)) (segments q))))
       (filter (below f) (remdups (map fst fs)))"

text \<open>Running a fallible function over a list, stopping at the first error.\<close>

fun map_err :: "('a \<Rightarrow> err + 'b) \<Rightarrow> 'a list \<Rightarrow> err + 'b list" where
  "map_err g [] = Inr []"
| "map_err g (x # xs) =
     (case g x of
        Inl e \<Rightarrow> Inl e
      | Inr y \<Rightarrow> (case map_err g xs of Inl e \<Rightarrow> Inl e | Inr ys \<Rightarrow> Inr (y # ys)))"

section \<open>The tree enumerator\<close>

text \<open>
  \<open>getFiles\<close> (the current \<open>tar\<close> and \<open>zip\<close> call it): one \<open>stat\<close> of \<open>f\<close>; for a
  directory one non-recursive \<open>readdir\<close> and a \<open>stat\<close> of each name resolved against
  \<open>f\<close>; otherwise the one pair of \<open>f\<close> and its stat.
\<close>

definition getFiles :: "string \<Rightarrow> filesystem \<Rightarrow> string \<Rightarrow> err + (string \<times> stats) list" where
  "getFiles cwd fs f =
     (case stat fs f of
        Inl e \<Rightarrow> Inl e
      | Inr st \<Rightarrow>
          if isDirectory st then
            map_err (\<lambda>name.
                let p = path_resolve cwd [f, name] in
                (case stat fs p of Inl e \<Rightarrow> Inl e | Inr s \<Rightarrow> Inr (p, s)))
              (readdir fs f)
          else Inr [(f, st)])"

text \<open>
  The enumeration at the head of the first version of \<open>tar\<close>: for a directory the
  recursive \<open>readdir\<close>, otherwise \<open>f\<close> itself; each is then resolved with
  \<open>path.resolve(cwd, f, file)\<close> and statted.
\<close>

definition tar_v1_files :: "string \<Rightarrow> filesystem \<Rightarrow> string \<Rightarrow> err + (string \<times> stats) list" where
  "tar_v1_files cwd fs f =
     (case stat fs f of
        Inl e \<Rightarrow> Inl e
      | Inr st \<Rightarrow>
          map_err (\<lambda>file.
              let p = path_resolve cwd [cwd, f, file] in
              (case stat fs p of Inl e \<Rightarrow> Inl e | Inr s \<Rightarrow> Inr (p, s)))
            (if isDirectory st then readdir_recursive fs f else [f]))"

section \<open>Filesystem effects and how the code waits for them\<close>

datatype fsop =
    Mkdir string
  | Write string data
  | Chmod string nat
  | Chown string nat nat
  | Utimes string int

text \<open>
  \<open>Mkdir p\<close> is \<open>fs.mkdir(p, {recursive: true})\<close>; \<open>Write p d\<close> is a stream of content
  \<open>d\<close> piped into \<open>createWriteStream(p)\<close>; \<open>Utimes p m\<close> is \<open>fs.utimes(p, new Date(), m)\<close>
  (the access time is not part of \<open>stats\<close>).

  A step of an async function, in program order: \<open>Await ops\<close> is \<open>await op\<close> or
  \<open>await Promise.all([ops])\<close>, the function going on only when they are done;
  \<open>Detach op\<close> starts \<open>op\<close> and goes on at once, nothing ever waiting for its end or
  listening for its error; \<open>Spawn j\<close> does the same with a library job.
\<close>

datatype job = UnzipExtract string string

datatype step = Await "fsop list" | Detach fsop | Spawn job

text \<open>
  What a new directory or file gets from the process (umask 022, uid 0, gid 0); the
  clock is not modelled and reads 0.
\<close>

definition created :: "ftype \<Rightarrow> stats" where
  "created k =
     \<lparr>st_type = k, mode = (if k = DirectoryT then 493 else 420), mtime = 0, uid = 0, gid = 0\<rparr>"

text \<open>The paths of \<open>p\<close>'s ancestors below the root and of \<open>p\<close> itself, outermost first.\<close>

definition chain :: "string \<Rightarrow> string list" where
  "chain p = map (\<lambda>n. render (take n (segments p))) [1 ..< Suc (length (segments p))]"

fun mkdir_chain :: "string list \<Rightarrow> filesystem \<Rightarrow> err + filesystem" where
  "mkdir_chain [] fs = Inr fs"
| "mkdir_chain (q # qs) fs =
     (case lookup fs q of
        None \<Rightarrow> mkdir_chain qs (AList.update q (created DirectoryT, Raw []) fs)
      | Some (s, _) \<Rightarrow>
          if isDirectory s then mkdir_chain qs fs
          else Inl (if qs = [] then EEXIST else ENOTDIR))"

definition set_stats :: "string \<Rightarrow> (stats \<Rightarrow> stats) \<Rightarrow> filesystem \<Rightarrow> err + filesystem" where
  "set_stats p g fs =
     (case lookup fs p of
        None \<Rightarrow> Inl ENOENT
      | Some (s, d) \<Rightarrow> Inr (AList.update p (g s, d) fs))"

fun exec_op :: "fsop \<Rightarrow> filesystem \<Rightarrow> err + filesystem" where
  "exec_op (Mkdir p) fs = mkdir_chain (chain p) fs"
| "exec_op (Write p d) fs =
     (case lookup fs (dirname p) of
        None \<Rightarrow> Inl ENOENT
      | Some (ds, _) \<Rightarrow>
          if \<not> isDirectory ds then Inl ENOTDIR
          else (case lookup fs p of
                  None \<Rightarrow> Inr (AList.update p (created RegularFile, d) fs)
                | Some (s, _) \<Rightarrow>
                    if isDirectory s then Inl EISDIR
                    else Inr (AList.update p (s\<lparr>mtime := 0\<rparr>, d) fs)))"
| "exec_op (Chmod p m) fs = set_stats p (\<lambda>s. s\<lparr>mode := m\<rparr>) fs"
| "exec_op (Chown p u g) fs = set_stats p (\<lambda>s. s\<lparr>uid := u, gid := g\<rparr>) fs"
| "exec_op (Utimes p m) fs = set_stats p (\<lambda>s. s\<lparr>mtime := m\<rparr>) fs"

fun exec_ops :: "fsop list \<Rightarrow> filesystem \<Rightarrow> err + filesystem" where
  "exec_ops [] fs = Inr fs"
| "exec_ops (x # xs) fs = (case exec_op x fs of Inl e \<Rightarrow> Inl e | Inr fs' \<Rightarrow> exec_ops xs fs')"

text \<open>
  Running steps under the schedule most favourable to the code: a detached write is
  complete as soon as it is issued. An awaited failure stops the function with that
  error; a detached failure reaches nobody; a spawned job is the library's and is not
  run. The result is the error, if any, and the filesystem reached. A call that fails
  is taken to leave the filesystem as it was before the call.
\<close>

fun exec_steps :: "step list \<Rightarrow> filesystem \<Rightarrow> err option \<times> filesystem" where
  "exec_steps [] fs = (None, fs)"
| "exec_steps (Await ops # ss) fs =
     (case exec_ops ops fs of Inl e \<Rightarrow> (Some e, fs) | Inr fs' \<Rightarrow> exec_steps ss fs')"
| "exec_steps (Detach x # ss) fs =
     (case exec_op x fs of Inl e \<Rightarrow> exec_steps ss fs | Inr fs' \<Rightarrow> exec_steps ss fs')"
| "exec_steps (Spawn j # ss) fs = exec_steps ss fs"

text \<open>How the promise of an async function ends.\<close>

datatype 'a outcome = Resolved 'a | Rejected err | NeverSettles

section \<open>The archive writer: \<open>tar\<close> and \<open>zip\<close>\<close>

text \<open>
  The callback mapped over the files. A directory reaches \<open>pack.entry\<close> without an
  \<open>await\<close>, inside \<open>files.map\<close>; a file first awaits \<open>fs.readFile\<close>. So the directory
  entries are appended first, then the files (taken here in the order of their reads).
\<close>

definition pack_order :: "(string \<times> stats) list \<Rightarrow> (string \<times> stats) list" where
  "pack_order files =
     filter (\<lambda>(p, s). \<not> isFile s) files @ filter (\<lambda>(p, s). isFile s) files"

definition pack_entry :: "string \<Rightarrow> filesystem \<Rightarrow> string \<Rightarrow> string \<times> stats \<Rightarrow> err + entry" where
  "pack_entry cwd fs f file =
     (case file of (p, s) \<Rightarrow>
        let name = replace_first (cwd @ ''/'') [] (path_resolve cwd [f, p]) in
        if isFile s then
          (case readFile fs p of
             Inl e \<Rightarrow> Inl e
           | Inr d \<Rightarrow>
               Inr (\<lparr>h_type = ''file'', h_name = name, h_mode = mode s, h_mtime = mtime s,
                     h_uid = uid s, h_gid = gid s\<rparr>, d))
        else
          Inr (\<lparr>h_type = ''directory'', h_name = name, h_mode = mode s, h_mtime = mtime s,
                h_uid = uid s, h_gid = gid s\<rparr>, Raw []))"

definition pack_entries :: "string \<Rightarrow> filesystem \<Rightarrow> string \<Rightarrow> err + entry list" where
  "pack_entries cwd fs f =
     (case getFiles cwd fs f of
        Inl e \<Rightarrow> Inl e
      | Inr files \<Rightarrow> map_err (pack_entry cwd fs f) (pack_order files))"

text \<open>
  After the entries, \<open>tar\<close> opens \<open>createWriteStream(n)\<close>, pipes the pack into it and
  returns \<open>n\<close>: \<open>pack.finalize()\<close> is never called and no gzip stage stands in the pipe,
  so what reaches \<open>n\<close> is the plain, unfinished tar stream.
\<close>

definition tar_steps :: "string \<Rightarrow> entry list \<Rightarrow> step list" where
  "tar_steps f es = [Detach (Write (f @ ''.tar.gz'') (Tar es False))]"

definition tar :: "string \<Rightarrow> filesystem \<Rightarrow> string \<Rightarrow> string outcome \<times> filesystem" where
  "tar cwd fs f =
     (case pack_entries cwd fs f of
        Inl e \<Rightarrow> (Rejected e, fs)
      | Inr es \<Rightarrow> (Resolved (f @ ''.tar.gz''), snd (exec_steps (tar_steps f es) fs)))"

text \<open>\<open>zip\<close> calls \<open>archive.finish()\<close> before it pipes the archive into the file.\<close>

definition zip_steps :: "string \<Rightarrow> entry list \<Rightarrow> step list" where
  "zip_steps f es = [Detach (Write (f @ ''.zip'') (Zip es True))]"

definition zip_archive :: "string \<Rightarrow> filesystem \<Rightarrow> string \<Rightarrow> string outcome \<times> filesystem" where
  "zip_archive cwd fs f =
     (case pack_entries cwd fs f of
        Inl e \<Rightarrow> (Rejected e, fs)
      | Inr es \<Rightarrow> (Resolved (f @ ''.zip''), snd (exec_steps (zip_steps f es) fs)))"

section \<open>The archive extractor: \<open>untar\<close> and \<open>unzip\<close>\<close>

text \<open>
  What \<open>for await (const entry of extract)\<close> receives after
  \<open>createReadStream(f).pipe(extract)\<close>. The file's bytes go to the tar parser as they
  are. When \<open>f\<close> cannot be read the read stream emits an error that nothing listens
  to and that \<open>pipe\<close> does not pass on: the parser gets neither data nor end (where
  the runtime ends the process on the unhandled error event, the caller gets no answer
  either).
\<close>

datatype feed = Yields "entry list" | Fails err | Stalls

definition tar_extract :: "filesystem \<Rightarrow> string \<Rightarrow> feed" where
  "tar_extract fs f =
     (case lookup fs f of
        None \<Rightarrow> Stalls
      | Some (s, d) \<Rightarrow>
          if isDirectory s then Stalls
          else (case d of Tar es fin \<Rightarrow> Yields es | _ \<Rightarrow> Fails InvalidTarHeader))"

text \<open>The body of the loop, for one entry.\<close>

definition untar_entry :: "string \<Rightarrow> string \<Rightarrow> entry \<Rightarrow> step list" where
  "untar_entry cwd t e =
     (case e of (h, d) \<Rightarrow>
        let target = path_resolve cwd [t, h_name h] in
        [Await [Mkdir (dirname target)],
         (if h_type h = ''file'' then Detach (Write target d) else Await [Mkdir target]),
         Await [Chmod target (h_mode h), Chown target (h_uid h) (h_gid h),
                Utimes target (h_mtime h)]])"

definition untar_steps :: "string \<Rightarrow> string \<Rightarrow> entry list \<Rightarrow> step list" where
  "untar_steps cwd t es = concat (map (untar_entry cwd t) es)"

definition untar :: "string \<Rightarrow> filesystem \<Rightarrow> string \<Rightarrow> string \<Rightarrow> unit outcome \<times> filesystem" where
  "untar cwd fs f t =
     (case tar_extract fs f of
        Stalls \<Rightarrow> (NeverSettles, fs)
      | Fails e \<Rightarrow> (Rejected e, fs)
      | Yields es \<Rightarrow>
          (case exec_steps (untar_steps cwd t es) fs of
             (None, fs') \<Rightarrow> (Resolved (), fs')
           | (Some e, fs') \<Rightarrow> (Rejected e, fs')))"

text \<open>
  The first version of \<open>untar\<close> began with \<open>await fs.stat(f)\<close>. Its loop resolves the
  target with \<open>path.resolve(cwd, t, name)\<close>, the same path as \<open>path.resolve(t, name)\<close>,
  and is otherwise the loop above.
\<close>

definition untar_v1 :: "string \<Rightarrow> filesystem \<Rightarrow> string \<Rightarrow> string \<Rightarrow> unit outcome \<times> filesystem" where
  "untar_v1 cwd fs f t =
     (case stat fs f of Inl e \<Rightarrow> (Rejected e, fs) | Inr s \<Rightarrow> untar cwd fs f t)"

text \<open>
  \<open>unzip\<close> builds the extractor, pipes the read stream into it and ends: no \<open>await\<close>,
  no listener.
\<close>

definition unzip_steps :: "string \<Rightarrow> string \<Rightarrow> step list" where
  "unzip_steps f t = [Spawn (UnzipExtract f t)]"

definition unzip :: "string \<Rightarrow> filesystem \<Rightarrow> string \<Rightarrow> string \<Rightarrow> unit outcome \<times> filesystem" where
  "unzip cwd fs f t = (Resolved (), snd (exec_steps (unzip_steps f t) fs))"

section \<open>The request handlers\<close>

text \<open>The request body: \<open>body.dir\<close>, \<open>body.file\<close>, \<open>body.target\<close>, \<open>body.format\<close>.\<close>

record body =
  b_dir :: string
  b_file :: string
  b_target :: string
  b_format :: string

record response =
  status :: nat
  location :: "string option"

text \<open>\<open>codeToStatus[code] || 500\<close>, for the error codes of the model.\<close>

definition codeToStatus :: "err \<Rightarrow> nat option" where
  "codeToStatus e = (if e = ENOENT then Some 404 else None)"

definition onError :: "err \<Rightarrow> response" where
  "onError e =
     \<lparr>status = (case codeToStatus e of Some s \<Rightarrow> s | None \<Rightarrow> 500), location = None\<rparr>"

text \<open>
  What the client gets from a handler whose promise ended as \<open>r\<close>: the response built
  by \<open>ok\<close>, the response of \<open>onError\<close>, or none.
\<close>

definition reply :: "('a \<Rightarrow> response) \<Rightarrow> 'a outcome \<Rightarrow> response option" where
  "reply ok r =
     (case r of
        Resolved x \<Rightarrow> Some (ok x)
      | Rejected e \<Rightarrow> Some (onError e)
      | NeverSettles \<Rightarrow> None)"

definition compressHandler :: "string \<Rightarrow> filesystem \<Rightarrow> body \<Rightarrow> response option \<times> filesystem" where
  "compressHandler cwd fs b =
     (let d = (if b_dir b = [] then ''/'' else b_dir b);
          tgt = path_resolve cwd [cwd, ''./'' @ d, ''./'' @ b_target b]
      in if b_format b = ''tar.gz'' then
           (case tar cwd fs tgt of
              (r, fs') \<Rightarrow> (reply (\<lambda>n. \<lparr>status = 204, location = Some n\<rparr>) r, fs'))
         else if b_format b = ''zip'' then
           (case zip_archive cwd fs tgt of
              (r, fs') \<Rightarrow> (reply (\<lambda>n. \<lparr>status = 204, location = Some n\<rparr>) r, fs'))
         else (Some \<lparr>status = 400, location = None\<rparr>, fs))"

definition decompressHandler :: "string \<Rightarrow> filesystem \<Rightarrow> body \<Rightarrow> response option \<times> filesystem" where
  "decompressHandler cwd fs b =
     (let d = (if b_dir b = [] then ''/'' else b_dir b);
          f = path_resolve cwd [cwd, ''./'' @ d, ''./'' @ b_file b];
          tgt = path_resolve cwd [cwd, ''./'' @ b_target b]
      in if b_format b = ''tar.gz'' then
           (case untar cwd fs f tgt of
              (r, fs') \<Rightarrow> (reply (\<lambda>_. \<lparr>status = 204, location = None\<rparr>) r, fs'))
         else if b_format b = ''zip'' then
           (case unzip cwd fs f tgt of
              (r, fs') \<Rightarrow> (reply (\<lambda>_. \<lparr>status = 204, location = None\<rparr>) r, fs'))
         else (Some \<lparr>status = 400, location = None\<rparr>, fs))"

text \<open>
  The same steps under the other schedule the code allows: a detached write completes
  only after the awaited calls that follow it. \<open>pend\<close> holds the writes still open.
\<close>

fun exec_steps_late :: "step list \<Rightarrow> fsop list \<Rightarrow> filesystem \<Rightarrow> err option \<times> filesystem" where
  "exec_steps_late [] pend fs = (None, snd (exec_steps (map Detach pend) fs))"
| "exec_steps_late (Await ops # ss) pend fs =
     (case exec_ops ops fs of
        Inl e \<Rightarrow> (Some e, snd (exec_steps (map Detach pend) fs))
      | Inr fs' \<Rightarrow> exec_steps_late ss pend fs')"
| "exec_steps_late (Detach x # ss) pend fs = exec_steps_late ss (pend @ [x]) fs"
| "exec_steps_late (Spawn j # ss) pend fs = exec_steps_late ss pend fs"

text \<open>Whether \<open>q\<close> is a directory of the filesystem.\<close>

definition isDir :: "filesystem \<Rightarrow> string \<Rightarrow> bool" where
  "isDir fs q = (case lookup fs q of None \<Rightarrow> False | Some (s, _) \<Rightarrow> isDirectory s)"

section \<open>A small tree\<close>

text \<open>
  The working directory \<open>/w\<close> holds the directory \<open>T\<close> with the file \<open>a\<close> and the
  directory \<open>s\<close>, which holds the file \<open>x\<close>.
\<close>

definition example_fs :: filesystem where
  "example_fs =
     [(''/w'', \<lparr>st_type = DirectoryT, mode = 493, mtime = 1, uid = 0, gid = 0\<rparr>, Raw []),
      (''/w/T'', \<lparr>st_type = DirectoryT, mode = 493, mtime = 2, uid = 7, gid = 8\<rparr>, Raw []),
      (''/w/T/a'', \<lparr>st_type = RegularFile, mode = 420, mtime = 3, uid = 7, gid = 8\<rparr>, Raw [1, 2]),
      (''/w/T/s'', \<lparr>st_type = DirectoryT, mode = 448, mtime = 4, uid = 7, gid = 8\<rparr>, Raw []),
      (''/w/T/s/x'', \<lparr>st_type = RegularFile, mode = 384, mtime = 5, uid = 7, gid = 8\<rparr>, Raw [9])]"

text \<open>The names of the entries of the archive at \<open>p\<close>, if one is there.\<close>

definition archive_names :: "filesystem \<Rightarrow> string \<Rightarrow> string list option" where
  "archive_names fs p =
     (case lookup fs p of
        None \<Rightarrow> None
      | Some (s, d) \<Rightarrow>
          (case d of
             Tar es fin \<Rightarrow> Some (map (\<lambda>(h, c). h_name h) es)
           | Zip es fin \<Rightarrow> Some (map (\<lambda>(h, c). h_name h) es)
           | _ \<Rightarrow> None))"

text \<open>The content found at \<open>p\<close>.\<close>

definition content_at :: "filesystem \<Rightarrow> string \<Rightarrow> data option" where
  "content_at fs p = map_option snd (lookup fs p)"

text \<open>Whether the archive stream \<open>d\<close> was finalized; nothing for other content.\<close>

definition finalized :: "data \<Rightarrow> bool option" where
  "finalized d =
     (case d of
        Tar es fin \<Rightarrow> Some fin
      | Zip es fin \<Rightarrow> Some fin
      | Raw bs \<Rightarrow> None
      | Gzip c \<Rightarrow> None)"

text \<open>Archive entries: the file \<open>name\<close> holding the byte 1, and the directory \<open>name\<close>.\<close>

definition file_entry :: "string \<Rightarrow> entry" where
  "file_entry name =
     (\<lparr>h_type = ''file'', h_name = name, h_mode = 384, h_mtime = 5, h_uid = 7, h_gid = 8\<rparr>,
      Raw [1])"

definition dir_entry :: "string \<Rightarrow> entry" where
  "dir_entry name =
     (\<lparr>h_type = ''directory'', h_name = name, h_mode = 448, h_mtime = 4, h_uid = 7, h_gid = 8\<rparr>,
      Raw [])"

text \<open>A filesystem with the working directory \<open>/w\<close> and one file \<open>/w/A.tar.gz\<close> holding \<open>d\<close>.\<close>

definition archive_fs :: "data \<Rightarrow> filesystem" where
  "archive_fs d =
     [(''/w'', \<lparr>st_type = DirectoryT, mode = 493, mtime = 1, uid = 0, gid = 0\<rparr>, Raw []),
      (''/w/A.tar.gz'', \<lparr>st_type = RegularFile, mode = 420, mtime = 2, uid = 0, gid = 0\<rparr>, d)]"

section \<open>Facts about paths and the filesystem\<close>

lemma split_slash_no_slash:
  "CHR ''/'' \<notin> set s \<Longrightarrow> split_slash acc s = [rev acc @ s]"
  by (induction s arbitrary: acc) auto

lemma split_slash_at_slash:
  "CHR ''/'' \<notin> set s \<Longrightarrow> split_slash acc (s @ CHR ''/'' # r) = (rev acc @ s) # split_slash [] r"
  by (induction s arbitrary: acc) auto

lemma split_slash_joined:
  "CHR ''/'' \<notin> set s \<Longrightarrow> list_all (\<lambda>x. CHR ''/'' \<notin> set x) segs \<Longrightarrow>
   split_slash acc (s @ concat (map (\<lambda>x. CHR ''/'' # x) segs)) = (rev acc @ s) # segs"
proof (induction segs arbitrary: s acc)
  case Nil
  then show ?case by (simp add: split_slash_no_slash)
next
  case (Cons x xs)
  have "split_slash acc (s @ CHR ''/'' # (x @ concat (map (\<lambda>x. CHR ''/'' # x) xs)))
        = (rev acc @ s) # split_slash [] (x @ concat (map (\<lambda>x. CHR ''/'' # x) xs))"
    using Cons.prems(1) by (rule split_slash_at_slash)
  also have "split_slash [] (x @ concat (map (\<lambda>x. CHR ''/'' # x) xs)) = x # xs"
    using Cons.IH [of x "[]"] Cons.prems(2) by simp
  finally show ?case by simp
qed

text \<open>Rendering segments and splitting again gives the segments back.\<close>

lemma segments_render:
  assumes "list_all (\<lambda>x. x \<noteq> [] \<and> CHR ''/'' \<notin> set x) segs"
  shows "segments (render segs) = segs"
proof (cases segs)
  case Nil
  then show ?thesis by (simp add: segments_def render_def)
next
  case (Cons x xs)
  have a: "list_all (\<lambda>x. CHR ''/'' \<notin> set x) segs" and b: "list_all (\<lambda>x. x \<noteq> []) segs"
    using assms by (simp_all add: list_all_iff)
  have "split_slash [] ([] @ concat (map (\<lambda>x. CHR ''/'' # x) segs)) = (rev [] @ []) # segs"
    using a by (intro split_slash_joined) simp_all
  then have "split_slash [] (render segs) = [] # segs"
    using Cons by (simp add: render_def)
  then show ?thesis using b by (simp add: segments_def list_all_iff filter_id_conv)
qed

lemma split_slash_clean:
  "CHR ''/'' \<notin> set acc \<Longrightarrow> list_all (\<lambda>x. CHR ''/'' \<notin> set x) (split_slash acc cs)"
  by (induction cs arbitrary: acc) auto

lemma segments_clean: "list_all (\<lambda>x. x \<noteq> [] \<and> CHR ''/'' \<notin> set x) (segments p)"
  using split_slash_clean [of "[]" p] by (auto simp: segments_def list_all_iff)

lemma segments_dirname: "segments (dirname p) = butlast (segments p)"
proof -
  have "list_all (\<lambda>x. x \<noteq> [] \<and> CHR ''/'' \<notin> set x) (butlast (segments p))"
    using segments_clean [of p] by (auto simp: list_all_iff dest: in_set_butlastD)
  then show ?thesis unfolding dirname_def by (rule segments_render)
qed

lemma lookup_update:
  "lookup (AList.update q v fs) q' =
     (if q' = ''/'' then Some (root_stats, Raw []) else if q' = q then Some v else lookup fs q')"
  by (simp add: lookup_def update_conv')

lemma isDir_root: "isDir fs ''/''"
  by (simp add: isDir_def lookup_def root_stats_def isDirectory_def)

lemma lookup_root: "lookup fs ''/'' \<noteq> None"
  by (simp add: lookup_def)

lemma isDir_update_new:
  assumes "lookup fs q = None" and "isDir fs q'"
  shows "isDir (AList.update q v fs) q'"
proof (cases "q' = ''/''")
  case True
  then show ?thesis by (simp add: isDir_root)
next
  case False
  from assms have "q' \<noteq> q" by (auto simp: isDir_def)
  with False assms(2) show ?thesis by (simp add: isDir_def lookup_update)
qed

lemma isDir_created:
  assumes "lookup fs q = None"
  shows "isDir (AList.update q (created DirectoryT, d) fs) q"
proof -
  from assms have "q \<noteq> ''/''" using lookup_root [of fs] by auto
  then show ?thesis by (simp add: isDir_def lookup_update created_def isDirectory_def)
qed

text \<open>
  A recursive \<open>mkdir\<close> that succeeds keeps every directory there was and leaves a
  directory at each path of its chain.
\<close>

lemma mkdir_chain_dirs:
  "mkdir_chain qs fs = Inr fs' \<Longrightarrow>
     (\<forall>q. isDir fs q \<longrightarrow> isDir fs' q) \<and> list_all (isDir fs') qs"
proof (induction qs arbitrary: fs)
  case Nil
  then show ?case by simp
next
  case (Cons q qs)
  show ?case
  proof (cases "lookup fs q")
    case None
    let ?fs1 = "AList.update q (created DirectoryT, Raw []) fs"
    from Cons.prems None have run: "mkdir_chain qs ?fs1 = Inr fs'" by simp
    from Cons.IH [OF run] have keep: "\<forall>x. isDir ?fs1 x \<longrightarrow> isDir fs' x"
      and rest: "list_all (isDir fs') qs" by simp_all
    have "isDir ?fs1 q" using None by (rule isDir_created)
    with keep have "isDir fs' q" by simp
    moreover have "\<forall>x. isDir fs x \<longrightarrow> isDir fs' x"
      using keep isDir_update_new [OF None] by blast
    ultimately show ?thesis using rest by simp
  next
    case (Some sd)
    obtain s d where sd: "sd = (s, d)" by (cases sd)
    with Cons.prems Some have dir: "isDirectory s" and run: "mkdir_chain qs fs = Inr fs'"
      by (simp_all split: if_splits)
    from Cons.IH [OF run] have keep: "\<forall>x. isDir fs x \<longrightarrow> isDir fs' x"
      and rest: "list_all (isDir fs') qs" by simp_all
    have "isDir fs q" using Some sd dir by (simp add: isDir_def)
    with keep rest show ?thesis by simp
  qed
qed

lemma mkdir_makes_dir:
  assumes "exec_op (Mkdir p) fs = Inr fs'"
  shows "list_all (isDir fs') (chain p)"
  using assms mkdir_chain_dirs [of "chain p" fs fs'] by simp

lemma chain_last:
  assumes "segments p \<noteq> []"
  shows "render (segments p) \<in> set (chain p)"
proof -
  from assms have "length (segments p) \<in> set [1 ..< Suc (length (segments p))]"
    by (cases "segments p") simp_all
  then have "render (take (length (segments p)) (segments p)) \<in> set (chain p)"
    unfolding chain_def set_map by (rule imageI)
  then show ?thesis by simp
qed

lemma parent_isDir:
  assumes "exec_op (Mkdir (dirname p)) fs = Inr fs'"
  shows "isDir fs' (dirname p)"
proof (cases "segments (dirname p) = []")
  case True
  then have "butlast (segments p) = []" by (simp add: segments_dirname)
  then have "dirname p = ''/''" by (simp add: dirname_def render_def)
  then show ?thesis by (simp add: isDir_root)
next
  case False
  then have "render (segments (dirname p)) \<in> set (chain (dirname p))" by (rule chain_last)
  moreover have "render (segments (dirname p)) = dirname p"
    unfolding segments_dirname by (simp add: dirname_def)
  ultimately show ?thesis using mkdir_makes_dir [OF assms] by (simp add: list_all_iff)
qed

text \<open>A run that ends with an awaited call and no error ends in that call's result.\<close>

lemma exec_steps_snoc_await:
  "exec_steps (xs @ [Await ops]) fs = (None, fs') \<Longrightarrow> \<exists>fs1. exec_ops ops fs1 = Inr fs'"
proof (induction xs arbitrary: fs)
  case Nil
  then show ?case by (auto split: sum.splits)
next
  case (Cons x xs)
  then show ?case by (cases x) (auto split: sum.splits)
qed

section \<open>Facts about the enumerator\<close>

lemma getFiles_missing: "stat fs f = Inl e \<Longrightarrow> getFiles cwd fs f = Inl e"
  by (simp add: getFiles_def)

lemma getFiles_single_file:
  "stat fs f = Inr st \<Longrightarrow> \<not> isDirectory st \<Longrightarrow> getFiles cwd fs f = Inr [(f, st)]"
  by (simp add: getFiles_def)

lemma map_err_length: "map_err g xs = Inr ys \<Longrightarrow> length ys = length xs"
  by (induction xs arbitrary: ys) (auto split: sum.splits)

lemma map_err_fst:
  assumes "map_err g xs = Inr ys" and "\<And>x y. g x = Inr y \<Longrightarrow> fst y = k x"
  shows "map fst ys = map k xs"
  using assms(1)
proof (induction xs arbitrary: ys)
  case Nil
  then show ?case by simp
next
  case (Cons x xs)
  then show ?case by (auto split: sum.splits dest: assms(2))
qed

text \<open>
  For a directory, \<open>getFiles\<close> returns the names of the one \<open>readdir\<close>, resolved
  against the directory: its direct children and nothing deeper.
\<close>

lemma getFiles_direct_children:
  assumes "stat fs f = Inr st" and "isDirectory st" and "getFiles cwd fs f = Inr files"
  shows "map fst files = map (\<lambda>name. path_resolve cwd [f, name]) (readdir fs f)"
proof -
  let ?g = "\<lambda>name. let p = path_resolve cwd [f, name] in
              (case stat fs p of Inl e \<Rightarrow> Inl e | Inr s \<Rightarrow> Inr (p, s))"
  from assms have run: "map_err ?g (readdir fs f) = Inr files"
    by (simp add: getFiles_def)
  show ?thesis
    using run by (rule map_err_fst) (auto simp: Let_def split: sum.splits)
qed

section \<open>Facts about the writer and the extractor\<close>

lemma tar_missing_root: "stat fs f = Inl e \<Longrightarrow> tar cwd fs f = (Rejected e, fs)"
  by (simp add: tar_def pack_entries_def getFiles_missing)

lemma tar_returns_path:
  "pack_entries cwd fs f = Inr es \<Longrightarrow> fst (tar cwd fs f) = Resolved (f @ ''.tar.gz'')"
  by (simp add: tar_def)

lemma zip_returns_path:
  "pack_entries cwd fs f = Inr es \<Longrightarrow> fst (zip_archive cwd fs f) = Resolved (f @ ''.zip'')"
  by (simp add: zip_archive_def)

text \<open>The loop body for a file entry: the write is started between two awaited groups.\<close>

lemma untar_entry_file:
  "h_type h = ''file'' \<Longrightarrow>
     untar_entry cwd t (h, d) =
       [Await [Mkdir (dirname (path_resolve cwd [t, h_name h]))],
        Detach (Write (path_resolve cwd [t, h_name h]) d),
        Await [Chmod (path_resolve cwd [t, h_name h]) (h_mode h),
               Chown (path_resolve cwd [t, h_name h]) (h_uid h) (h_gid h),
               Utimes (path_resolve cwd [t, h_name h]) (h_mtime h)]]"
  by (simp add: untar_entry_def Let_def)

lemma untar_v1_missing: "stat fs f = Inl e \<Longrightarrow> untar_v1 cwd fs f t = (Rejected e, fs)"
  by (simp add: untar_v1_def)

section \<open>The claims\<close>

text \<open>
  C1, round-trip identity: extracting the archive that \<open>createArchive\<close> made of a tree
  reproduces every file's content and every file's and directory's mode, uid, gid and
  mtime under the target directory, for tar.gz and for zip.

  The code does not do this. \<open>/w/T\<close> of the small tree is archived with \<open>tar\<close> and the
  archive is extracted into \<open>/w/D\<close>, under the schedule most favourable to the code.
  Both calls succeed, the archive holds the two direct children of \<open>T\<close> only, and the
  file \<open>/w/T/s/x\<close> with its content \<open>[9]\<close> is found nowhere below \<open>/w/D\<close>. The zip archive
  of the same tree holds the same two entries.
\<close>

theorem roundtrip_drops_nested_file:
  "(let fs1 = snd (tar ''/w'' example_fs ''/w/T'');
        r = untar ''/w'' fs1 ''/w/T.tar.gz'' ''/w/D''
    in fst (tar ''/w'' example_fs ''/w/T'') = Resolved ''/w/T.tar.gz''
       \<and> fst r = Resolved ()
       \<and> archive_names fs1 ''/w/T.tar.gz'' = Some [''T/s'', ''T/a'']
       \<and> content_at (snd r) ''/w/D/T/a'' = Some (Raw [1, 2])
       \<and> content_at example_fs ''/w/T/s/x'' = Some (Raw [9])
       \<and> content_at (snd r) ''/w/D/T/s/x'' = None
       \<and> filter (\<lambda>(p, s, d). inside ''/w/D'' p \<and> d = Raw [9]) (snd r) = [])
   \<and> archive_names (snd (zip_archive ''/w'' example_fs ''/w/T'')) ''/w/T.zip''
       = Some [''T/s'', ''T/a'']"
  by code_simp

text \<open>
  C2, extraction containment: every path the extractor resolves for an entry lies inside
  the target directory; no name with \<open>..\<close> segments and no absolute name causes a write
  outside it.

  The code resolves \<open>path.resolve(t, entry.header.name)\<close> and uses the result as it is.
  For the target \<open>/w/D\<close> the entry \<open>../evil\<close> is written to \<open>/w/evil\<close>, and the name
  \<open>/etc/passwd\<close> resolves to \<open>/etc/passwd\<close>; neither is inside \<open>/w/D\<close>.
\<close>

theorem untar_writes_outside_target:
  "untar_entry ''/w'' ''/w/D'' (file_entry ''../evil'') =
     [Await [Mkdir ''/w''],
      Detach (Write ''/w/evil'' (Raw [1])),
      Await [Chmod ''/w/evil'' 384, Chown ''/w/evil'' 7 8, Utimes ''/w/evil'' 5]]
   \<and> \<not> inside ''/w/D'' ''/w/evil''
   \<and> content_at
        (snd (untar ''/w'' (archive_fs (Tar [file_entry ''../evil''] True))
                ''/w/A.tar.gz'' ''/w/D''))
        ''/w/evil'' = Some (Raw [1])
   \<and> untar_entry ''/w'' ''/w/D'' (file_entry ''/etc/passwd'') =
     [Await [Mkdir ''/etc''],
      Detach (Write ''/etc/passwd'' (Raw [1])),
      Await [Chmod ''/etc/passwd'' 384, Chown ''/etc/passwd'' 7 8, Utimes ''/etc/passwd'' 5]]
   \<and> \<not> inside ''/w/D'' ''/etc/passwd''"
  by code_simp

text \<open>
  C3, recursive enumeration: for a directory the enumerator returns the full recursive
  descendant set, the root excluded, each with its own stat; for a single file it
  returns the one-element list of the root.

  \<open>getFiles\<close> reads the directory once, without \<open>recursive\<close>. On \<open>/w/T\<close> of the small
  tree it returns the two direct children with their stats and not \<open>/w/T/s/x\<close>, which
  exists below \<open>/w/T\<close>. The enumeration of the first version of \<open>tar\<close> returns all three.
  For the single file \<open>/w/T/a\<close>, \<open>getFiles\<close> returns the file itself.
\<close>

theorem getFiles_misses_nested_entries:
  "getFiles ''/w'' example_fs ''/w/T'' =
     Inr [(''/w/T/a'', \<lparr>st_type = RegularFile, mode = 420, mtime = 3, uid = 7, gid = 8\<rparr>),
          (''/w/T/s'', \<lparr>st_type = DirectoryT, mode = 448, mtime = 4, uid = 7, gid = 8\<rparr>)]
   \<and> stat example_fs ''/w/T/s/x'' =
       Inr \<lparr>st_type = RegularFile, mode = 384, mtime = 5, uid = 7, gid = 8\<rparr>
   \<and> below ''/w/T'' ''/w/T/s/x''
   \<and> map_sum id (map fst) (tar_v1_files ''/w'' example_fs ''/w/T'') =
       Inr [''/w/T/a'', ''/w/T/s'', ''/w/T/s/x'']
   \<and> getFiles ''/w'' example_fs ''/w/T/a'' =
       Inr [(''/w/T/a'', \<lparr>st_type = RegularFile, mode = 420, mtime = 3, uid = 7, gid = 8\<rparr>)]"
  by code_simp

text \<open>
  C4, postcondition of \<open>createArchive\<close>: it returns \<open>root + ".tar.gz"\<close> or
  \<open>root + ".zip"\<close>, and when it returns that path names a complete, closed archive.

  The paths are as claimed. The archive is not: \<open>tar\<close> starts the write without
  waiting for it and never finalizes the pack, so the stream into \<open>/w/T.tar.gz\<close> is
  never ended, whereas \<open>zip\<close> does finish its archive before piping it.
\<close>

theorem tar_archive_never_finalized:
  "fst (tar ''/w'' example_fs ''/w/T'') = Resolved ''/w/T.tar.gz''
   \<and> tar_steps ''/w/T'' [dir_entry ''T/s''] =
       [Detach (Write ''/w/T.tar.gz'' (Tar [dir_entry ''T/s''] False))]
   \<and> Option.bind (content_at (snd (tar ''/w'' example_fs ''/w/T'')) ''/w/T.tar.gz'') finalized
       = Some False
   \<and> fst (zip_archive ''/w'' example_fs ''/w/T'') = Resolved ''/w/T.zip''
   \<and> Option.bind (content_at (snd (zip_archive ''/w'' example_fs ''/w/T'')) ''/w/T.zip'')
        finalized = Some True"
  by code_simp

text \<open>
  C5, gzip stage: for the format tar.gz the archive is run through gzip inflate before
  the tar parser reads it, and the written archive is a gzip-wrapped tar stream.

  Neither stage is in the code. What \<open>tar\<close> writes to \<open>/w/T.tar.gz\<close> is the plain tar
  stream, and \<open>untar\<close> hands a gzip-wrapped tar to the tar parser as it is, which
  rejects it, and nothing is extracted.
\<close>

theorem tar_gz_has_no_gzip_stage:
  "content_at (snd (tar ''/w'' example_fs ''/w/T'')) ''/w/T.tar.gz'' =
     Some (Tar [(\<lparr>h_type = ''directory'', h_name = ''T/s'', h_mode = 448, h_mtime = 4,
                   h_uid = 7, h_gid = 8\<rparr>, Raw []),
                (\<lparr>h_type = ''file'', h_name = ''T/a'', h_mode = 420, h_mtime = 3,
                   h_uid = 7, h_gid = 8\<rparr>, Raw [1, 2])] False)
   \<and> untar ''/w'' (archive_fs (Gzip (Tar [file_entry ''x''] True))) ''/w/A.tar.gz'' ''/w/D'' =
       (Rejected InvalidTarHeader, archive_fs (Gzip (Tar [file_entry ''x''] True)))
   \<and> fst (untar ''/w'' (archive_fs (Tar [file_entry ''x''] True)) ''/w/A.tar.gz'' ''/w/D'') =
       Resolved ()"
  by code_simp

text \<open>
  C6, metadata after content: for every file entry, \<open>chmod\<close>, \<open>chown\<close> and \<open>utimes\<close>
  happen only after the entry's content has been fully written.

  The loop body starts the write of a file entry and goes on at once to the awaited
  \<open>Promise.all\<close> of the three calls; only the \<open>mkdir\<close> of a directory entry is awaited
  before them. When the write completes after them, \<open>chmod\<close> finds no file and the
  extraction of the one file \<open>x\<close> into the new directory \<open>/w/D\<close> fails with ENOENT.
\<close>

theorem untar_restores_metadata_before_content:
  "untar_entry ''/w'' ''/w/D'' (file_entry ''x'') =
     [Await [Mkdir ''/w/D''],
      Detach (Write ''/w/D/x'' (Raw [1])),
      Await [Chmod ''/w/D/x'' 384, Chown ''/w/D/x'' 7 8, Utimes ''/w/D/x'' 5]]
   \<and> untar_entry ''/w'' ''/w/D'' (dir_entry ''s'') =
     [Await [Mkdir ''/w/D''],
      Await [Mkdir ''/w/D/s''],
      Await [Chmod ''/w/D/s'' 448, Chown ''/w/D/s'' 7 8, Utimes ''/w/D/s'' 4]]
   \<and> fst (exec_steps_late (untar_entry ''/w'' ''/w/D'' (file_entry ''x'')) []
            (archive_fs (Tar [file_entry ''x''] True))) = Some ENOENT
   \<and> fst (exec_steps (untar_entry ''/w'' ''/w/D'' (file_entry ''x''))
            (archive_fs (Tar [file_entry ''x''] True))) = None"
  by code_simp

text \<open>
  C7, NotFound on extraction: for an archive path that does not exist, and either
  format, \<open>extractArchive\<close> fails with NotFound.

  Nothing is at \<open>/w/nope.zip\<close> or \<open>/w/nope.tar.gz\<close>. For zip the handler answers 204;
  for tar.gz the loop waits for a parser that gets neither data nor end, and no answer
  is sent. The first version of \<open>untar\<close>, which began with a \<open>stat\<close>, rejects with
  ENOENT, which \<open>onError\<close> answers with 404.
\<close>

theorem missing_archive_not_reported:
  "stat example_fs ''/w/nope.zip'' = Inl ENOENT
   \<and> stat example_fs ''/w/nope.tar.gz'' = Inl ENOENT
   \<and> decompressHandler ''/w'' example_fs
        \<lparr>b_dir = [], b_file = ''nope.zip'', b_target = ''D'', b_format = ''zip''\<rparr> =
       (Some \<lparr>status = 204, location = None\<rparr>, example_fs)
   \<and> decompressHandler ''/w'' example_fs
        \<lparr>b_dir = [], b_file = ''nope.tar.gz'', b_target = ''D'', b_format = ''tar.gz''\<rparr> =
       (None, example_fs)
   \<and> untar ''/w'' example_fs ''/w/nope.tar.gz'' ''/w/D'' = (NeverSettles, example_fs)
   \<and> untar_v1 ''/w'' example_fs ''/w/nope.tar.gz'' ''/w/D'' = (Rejected ENOENT, example_fs)
   \<and> onError ENOENT = \<lparr>status = 404, location = None\<rparr>"
  by code_simp

text \<open>
  C8, unsupported format: for every format other than tar.gz and zip, \<open>createArchive\<close>
  fails with UnsupportedFormat and creates no file.

  The dispatch on the format is in \<open>compressHandler\<close>: for any other format it calls
  neither \<open>tar\<close> nor \<open>zip\<close>, answers 400 (the status of UnsupportedFormat) and leaves the
  filesystem as it was.
\<close>

theorem unsupported_format_rejected:
  "b_format b \<noteq> ''tar.gz'' \<Longrightarrow> b_format b \<noteq> ''zip'' \<Longrightarrow>
     compressHandler cwd fs b = (Some \<lparr>status = 400, location = None\<rparr>, fs)"
  by (simp add: compressHandler_def Let_def)

theorem unsupported_format_rejected_witness:
  "compressHandler ''/w'' example_fs
     \<lparr>b_dir = [], b_file = [], b_target = ''T'', b_format = ''rar''\<rparr> =
     (Some \<lparr>status = 400, location = None\<rparr>, example_fs)"
  using unsupported_format_rejected
    [of "\<lparr>b_dir = [], b_file = [], b_target = ''T'', b_format = ''rar''\<rparr>" "''/w''" example_fs]
  by simp

text \<open>With a supported format the same request does create the archive file.\<close>

lemma supported_format_creates_file:
  "fst (compressHandler ''/w'' example_fs
          \<lparr>b_dir = [], b_file = [], b_target = ''T'', b_format = ''zip''\<rparr>) =
     Some \<lparr>status = 204, location = Some ''/w/T.zip''\<rparr>
   \<and> content_at example_fs ''/w/T.zip'' = None
   \<and> content_at
        (snd (compressHandler ''/w'' example_fs
                \<lparr>b_dir = [], b_file = [], b_target = ''T'', b_format = ''zip''\<rparr>))
        ''/w/T.zip'' \<noteq> None"
  by code_simp

text \<open>
  C9, nested path creation: for every file entry whose name has intermediate segments,
  with no directory entry for them before it, all intermediate directories are created
  before the file's content is written.

  Let the file entry \<open>(h, d)\<close> stand anywhere in the archive, after the entries \<open>es1\<close>.
  The steps of the loop up to it end with the awaited recursive \<open>mkdir\<close> of the target's
  parent, and the write of the target comes next. Whenever the run up to and including
  that \<open>mkdir\<close> ends without error in \<open>fs'\<close>, the filesystem in which the write starts,
  the parent of the target and every ancestor of it are directories of \<open>fs'\<close>.
\<close>

theorem untar_creates_parents_first:
  assumes "es = es1 @ (h, d) # es2"
    and "h_type h = ''file''"
    and "target = path_resolve cwd [t, h_name h]"
    and "exec_steps (untar_steps cwd t es1 @ [Await [Mkdir (dirname target)]]) fs = (None, fs')"
  shows "untar_steps cwd t es =
           (untar_steps cwd t es1 @ [Await [Mkdir (dirname target)]]) @
           Detach (Write target d) #
           Await [Chmod target (h_mode h), Chown target (h_uid h) (h_gid h),
                  Utimes target (h_mtime h)] #
           untar_steps cwd t es2
         \<and> list_all (isDir fs') (chain (dirname target))
         \<and> isDir fs' (dirname target)"
proof -
  have steps: "untar_steps cwd t es =
           (untar_steps cwd t es1 @ [Await [Mkdir (dirname target)]]) @
           Detach (Write target d) #
           Await [Chmod target (h_mode h), Chown target (h_uid h) (h_gid h),
                  Utimes target (h_mtime h)] #
           untar_steps cwd t es2"
    using assms(1-3) by (simp add: untar_steps_def untar_entry_def Let_def)
  from assms(4) obtain fs1 where "exec_ops [Mkdir (dirname target)] fs1 = Inr fs'"
    using exec_steps_snoc_await by blast
  then have made: "exec_op (Mkdir (dirname target)) fs1 = Inr fs'"
    by (simp split: sum.splits)
  have "list_all (isDir fs') (chain (dirname target))"
    using made by (rule mkdir_makes_dir)
  moreover have "isDir fs' (dirname target)"
    using made by (rule parent_isDir)
  ultimately show ?thesis using steps by simp
qed

text \<open>
  The entry \<open>a/b/c/file.txt\<close> after one directory entry \<open>s\<close>, extracted into \<open>/w/D\<close> on
  a filesystem that holds only \<open>/w\<close>.
\<close>

theorem untar_creates_parents_first_witness:
  "untar_steps ''/w'' ''/w/D'' [dir_entry ''s'', file_entry ''a/b/c/file.txt''] =
     (untar_steps ''/w'' ''/w/D'' [dir_entry ''s''] @ [Await [Mkdir ''/w/D/a/b/c'']]) @
     Detach (Write ''/w/D/a/b/c/file.txt'' (Raw [1])) #
     Await [Chmod ''/w/D/a/b/c/file.txt'' 384, Chown ''/w/D/a/b/c/file.txt'' 7 8,
            Utimes ''/w/D/a/b/c/file.txt'' 5] #
     untar_steps ''/w'' ''/w/D'' []
   \<and> list_all
       (isDir (snd (exec_steps
                (untar_steps ''/w'' ''/w/D'' [dir_entry ''s''] @ [Await [Mkdir ''/w/D/a/b/c'']])
                (archive_fs (Raw [])))))
       [''/w'', ''/w/D'', ''/w/D/a'', ''/w/D/a/b'', ''/w/D/a/b/c'']
   \<and> isDir (snd (exec_steps
                (untar_steps ''/w'' ''/w/D'' [dir_entry ''s''] @ [Await [Mkdir ''/w/D/a/b/c'']])
                (archive_fs (Raw []))))
       ''/w/D/a/b/c''"
proof -
  let ?h = "\<lparr>h_type = ''file'', h_name = ''a/b/c/file.txt'', h_mode = 384, h_mtime = 5,
              h_uid = 7, h_gid = 8\<rparr>"
  let ?pre = "untar_steps ''/w'' ''/w/D'' [dir_entry ''s''] @ [Await [Mkdir ''/w/D/a/b/c'']]"
  have e: "[dir_entry ''s'', file_entry ''a/b/c/file.txt''] = [dir_entry ''s''] @ (?h, Raw [1]) # []"
    by (simp add: file_entry_def)
  have k: "h_type ?h = ''file''" by simp
  have tg: "''/w/D/a/b/c/file.txt'' = path_resolve ''/w'' [''/w/D'', h_name ?h]" by code_simp
  have dn: "dirname ''/w/D/a/b/c/file.txt'' = ''/w/D/a/b/c''" by code_simp
  have ch: "chain ''/w/D/a/b/c'' = [''/w'', ''/w/D'', ''/w/D/a'', ''/w/D/a/b'', ''/w/D/a/b/c'']"
    by code_simp
  have "fst (exec_steps ?pre (archive_fs (Raw []))) = None" by code_simp
  then have run: "exec_steps
      (untar_steps ''/w'' ''/w/D'' [dir_entry ''s''] @
       [Await [Mkdir (dirname ''/w/D/a/b/c/file.txt'')]])
      (archive_fs (Raw [])) = (None, snd (exec_steps ?pre (archive_fs (Raw []))))"
    unfolding dn by (simp add: prod_eq_iff)
  show ?thesis
    using untar_creates_parents_first [OF e k tg run] unfolding dn ch by simp
qed

text \<open>
  C10, zip extraction is not awaited: for the format zip, \<open>extractArchive\<close> returns, and
  the handler reports success, as soon as the read stream is piped into the extractor;
  the extraction is never awaited and an error it raises later reaches no caller.

  For every archive path, existing or not, and every target, \<open>unzip\<close> resolves with the
  filesystem as it was, its only step being the extraction job started and left alone;
  the handler answers 204 whatever the rest of the request is.
\<close>

theorem unzip_returns_before_extraction:
  "unzip cwd fs f t = (Resolved (), fs)
   \<and> unzip_steps f t = [Spawn (UnzipExtract f t)]
   \<and> decompressHandler cwd fs (b\<lparr>b_format := ''zip''\<rparr>) =
       (Some \<lparr>status = 204, location = None\<rparr>, fs)"
  by (simp add: unzip_def unzip_steps_def decompressHandler_def Let_def reply_def)

end
